theory Spec2Isabelle
  imports Complex_Main "HOL-Library.Char_ord" "HOL-Library.List_Lexorder"
    "HOL-Library.Product_Lexorder" "HOL-Library.Multiset"
begin

section \<open>Floating-point cells\<close>

text \<open>
  A float64 cell of a pandas column is a finite number, one of the two infinities, or NaN
  (which pandas also uses for a missing value). Rounding is not modelled: finite values are
  reals. Signed zero is not modelled either: a zero divisor is taken as \<open>+0.0\<close>.
\<close>

datatype fval = Fin real | PInf | NInf | NaN

fun fneg :: "fval \<Rightarrow> fval" where
  "fneg (Fin a) = Fin (- a)"
| "fneg PInf = NInf"
| "fneg NInf = PInf"
| "fneg NaN = NaN"

fun fadd :: "fval \<Rightarrow> fval \<Rightarrow> fval" where
  "fadd (Fin a) (Fin b) = Fin (a + b)"
| "fadd NaN _ = NaN"
| "fadd _ NaN = NaN"
| "fadd PInf NInf = NaN"
| "fadd NInf PInf = NaN"
| "fadd PInf _ = PInf"
| "fadd _ PInf = PInf"
| "fadd NInf _ = NInf"
| "fadd _ NInf = NInf"

definition fsub :: "fval \<Rightarrow> fval \<Rightarrow> fval" where
  "fsub a b = fadd a (fneg b)"

fun fmul :: "fval \<Rightarrow> fval \<Rightarrow> fval" where
  "fmul (Fin a) (Fin b) = Fin (a * b)"
| "fmul NaN _ = NaN"
| "fmul _ NaN = NaN"
| "fmul PInf (Fin b) = (if 0 < b then PInf else if b < 0 then NInf else NaN)"
| "fmul NInf (Fin b) = (if 0 < b then NInf else if b < 0 then PInf else NaN)"
| "fmul (Fin a) PInf = (if 0 < a then PInf else if a < 0 then NInf else NaN)"
| "fmul (Fin a) NInf = (if 0 < a then NInf else if a < 0 then PInf else NaN)"
| "fmul PInf PInf = PInf"
| "fmul NInf NInf = PInf"
| "fmul PInf NInf = NInf"
| "fmul NInf PInf = NInf"

text \<open>
  Division of float64 columns raises nothing: a nonzero number over zero is an infinity
  with the sign of the numerator, and zero over zero is NaN.
\<close>

fun fdiv :: "fval \<Rightarrow> fval \<Rightarrow> fval" where
  "fdiv (Fin a) (Fin b) =
     (if b \<noteq> 0 then Fin (a / b)
      else if 0 < a then PInf else if a < 0 then NInf else NaN)"
| "fdiv NaN _ = NaN"
| "fdiv _ NaN = NaN"
| "fdiv (Fin a) PInf = Fin 0"
| "fdiv (Fin a) NInf = Fin 0"
| "fdiv PInf (Fin b) = (if 0 \<le> b then PInf else NInf)"
| "fdiv NInf (Fin b) = (if 0 \<le> b then NInf else PInf)"
| "fdiv PInf PInf = NaN"
| "fdiv PInf NInf = NaN"
| "fdiv NInf PInf = NaN"
| "fdiv NInf NInf = NaN"

text \<open>Comparisons with NaN on either side are false.\<close>

fun fgt :: "fval \<Rightarrow> fval \<Rightarrow> bool" where
  "fgt (Fin a) (Fin b) = (b < a)"
| "fgt NaN _ = False"
| "fgt _ NaN = False"
| "fgt PInf PInf = False"
| "fgt PInf _ = True"
| "fgt _ PInf = False"
| "fgt NInf _ = False"
| "fgt _ NInf = True"

definition flt :: "fval \<Rightarrow> fval \<Rightarrow> bool" where
  "flt a b = fgt b a"

definition isna :: "fval \<Rightarrow> bool" where
  "isna v = (v = NaN)"

section \<open>Observations\<close>

text \<open>
  One row of the weekly table. The grouping columns are strings and integers; the
  fantasy-points cell may be missing (\<open>None\<close>).
\<close>

record player_key =
  player_id :: string
  player_display_name :: string
  position :: string
  season :: int

record obs = player_key +
  week :: int
  fantasy_points_ppr :: "real option"

section \<open>Aggregator: groupby and the column aggregations\<close>

text \<open>
  \<open>groupby\<close> yields one group per distinct key, the groups in ascending key order, each
  group holding the rows of that key in their original order. The aggregations skip
  missing cells: \<open>sum\<close> of nothing is 0, \<open>mean\<close> of nothing is NaN, and the sample standard
  deviation (divisor \<open>n - 1\<close>) of fewer than two values is NaN.
\<close>

definition group_keys :: "('a \<Rightarrow> 'k::linorder) \<Rightarrow> 'a list \<Rightarrow> 'k list" where
  "group_keys f xs = sort (remdups (map f xs))"

definition group_rows :: "('a \<Rightarrow> 'k) \<Rightarrow> 'k \<Rightarrow> 'a list \<Rightarrow> 'a list" where
  "group_rows f k xs = filter (\<lambda>r. f r = k) xs"

definition dropna :: "real option list \<Rightarrow> real list" where
  "dropna vs = List.map_filter (\<lambda>v. v) vs"

definition sum_agg :: "real option list \<Rightarrow> real" where
  "sum_agg vs = sum_list (dropna vs)"

definition count_agg :: "real option list \<Rightarrow> nat" where
  "count_agg vs = length (dropna vs)"

definition mean_agg :: "real option list \<Rightarrow> fval" where
  "mean_agg vs =
     (let xs = dropna vs
      in if xs = [] then NaN else Fin (sum_list xs / real (length xs)))"

definition std_agg :: "real option list \<Rightarrow> fval" where
  "std_agg vs =
     (let xs = dropna vs; n = length xs; m = sum_list xs / real n
      in if n < 2 then NaN
         else Fin (sqrt (sum_list (map (\<lambda>x. (x - m)\<^sup>2) xs) / real (n - 1))))"

definition min_agg :: "real option list \<Rightarrow> fval" where
  "min_agg vs = (let xs = dropna vs in if xs = [] then NaN else Fin (Min (set xs)))"

definition max_agg :: "real option list \<Rightarrow> fval" where
  "max_agg vs = (let xs = dropna vs in if xs = [] then NaN else Fin (Max (set xs)))"

section \<open>Consistency insights: the per-player aggregate table\<close>

record named_row =
  player :: string

record consistency_row = named_row +
  avg_points :: fval
  std_points :: fval
  games :: nat
  min_points :: fval
  max_points :: fval

text \<open>
  \<open>calculate_consistency_insights\<close>, for one position: the rows of the position grouped by
  display name and aggregated with mean, std, count, min and max.
\<close>

definition player_consistency :: "string \<Rightarrow> obs list \<Rightarrow> consistency_row list" where
  "player_consistency pos df =
     (let pos_data = filter (\<lambda>r. position r = pos) df
      in map (\<lambda>n. let pts = map fantasy_points_ppr (group_rows player_display_name n pos_data)
                   in \<lparr>player = n, avg_points = mean_agg pts, std_points = std_agg pts,
                       games = count_agg pts, min_points = min_agg pts,
                       max_points = max_agg pts\<rparr>)
           (group_keys player_display_name pos_data))"

text \<open>Only players with at least 16 games are kept for the rankings.\<close>

definition player_consistency_16 :: "string \<Rightarrow> obs list \<Rightarrow> consistency_row list" where
  "player_consistency_16 pos df = filter (\<lambda>t. 16 \<le> games t) (player_consistency pos df)"

definition cv :: "consistency_row \<Rightarrow> fval" where
  "cv t = fdiv (std_points t) (avg_points t)"

definition floor_points :: "consistency_row \<Rightarrow> fval" where
  "floor_points t = fsub (avg_points t) (std_points t)"

definition ceiling_points :: "consistency_row \<Rightarrow> fval" where
  "ceiling_points t = fadd (avg_points t) (std_points t)"

text \<open>
  The entry of one position in \<open>calculate_consistency_insights\<close> (the mean of the
  coefficients of variation is left out); it is built further down, once \<open>nlargest\<close> and
  \<open>nsmallest\<close> are defined.
\<close>

record consistency_insight =
  most_consistent :: "consistency_row list"
  highest_ceiling :: "consistency_row list"
  highest_floor :: "consistency_row list"
  total_players_analyzed :: nat

section \<open>Selecting the n largest or smallest rows\<close>

text \<open>
  \<open>nlargest\<close> and \<open>nsmallest\<close> (with the default \<open>keep='first'\<close>) order the rows by one
  float column, ties in their original order and NaN cells last, and keep the first \<open>n\<close>.
\<close>

fun desc_key :: "fval \<Rightarrow> nat \<times> real" where
  "desc_key PInf = (0, 0)"
| "desc_key (Fin x) = (1, - x)"
| "desc_key NInf = (2, 0)"
| "desc_key NaN = (3, 0)"

fun asc_key :: "fval \<Rightarrow> nat \<times> real" where
  "asc_key NInf = (0, 0)"
| "asc_key (Fin x) = (1, x)"
| "asc_key PInf = (2, 0)"
| "asc_key NaN = (3, 0)"

definition nlargest :: "nat \<Rightarrow> ('a \<Rightarrow> fval) \<Rightarrow> 'a list \<Rightarrow> 'a list" where
  "nlargest n f xs = take n (sort_key (\<lambda>t. desc_key (f t)) xs)"

definition nsmallest :: "nat \<Rightarrow> ('a \<Rightarrow> fval) \<Rightarrow> 'a list \<Rightarrow> 'a list" where
  "nsmallest n f xs = take n (sort_key (\<lambda>t. asc_key (f t)) xs)"

definition positions :: "string list" where
  "positions = [''QB'', ''RB'', ''WR'', ''TE'']"

section \<open>Rookie insights\<close>

record obs_rookie = obs +
  rookie_season :: "int option"
  is_rookie :: bool

text \<open>The first season of every player: \<open>groupby('player_id')['season'].min()\<close>.\<close>

definition player_first_season :: "obs list \<Rightarrow> (string \<times> int) list" where
  "player_first_season df =
     map (\<lambda>p. (p, Min (set (map season (group_rows player_id p df)))))
       (group_keys player_id df)"

text \<open>
  The left merge on \<open>player_id\<close> gives every row of the table the first season of its
  player (a missing cell if the player had no entry), and the flag compares the two seasons.
\<close>

definition df_with_rookie :: "obs list \<Rightarrow> obs_rookie list" where
  "df_with_rookie df =
     map (\<lambda>r. let rs = map_of (player_first_season df) (player_id r)
              in \<lparr>player_id = player_id r, player_display_name = player_display_name r,
                  position = position r, season = season r, week = week r,
                  fantasy_points_ppr = fantasy_points_ppr r,
                  rookie_season = rs, is_rookie = (rs = Some (season r))\<rparr>) df"

record rookie_insight =
  rookie_avg :: fval
  veteran_avg :: fval
  performance_gap :: fval
  gap_percentage :: fval
  early_season_avg :: fval
  late_season_avg :: fval
  adaptation_improvement :: fval

text \<open>
  The entry of one position in \<open>calculate_rookie_insights\<close> (the table of the five best
  rookies is left out). The gap percentage divides only when the veteran average
  compares greater than zero, and is the integer 0 otherwise.
\<close>

definition rookie_insights_for :: "string \<Rightarrow> obs list \<Rightarrow> rookie_insight" where
  "rookie_insights_for pos df =
     (let pos_data = filter (\<lambda>r. position r = pos) (df_with_rookie df);
          r_avg = mean_agg (map fantasy_points_ppr (filter is_rookie pos_data));
          v_avg = mean_agg (map fantasy_points_ppr (filter (\<lambda>r. \<not> is_rookie r) pos_data));
          r_early = mean_agg (map fantasy_points_ppr
                      (filter (\<lambda>r. is_rookie r \<and> week r \<le> 4) pos_data));
          r_late = mean_agg (map fantasy_points_ppr
                      (filter (\<lambda>r. is_rookie r \<and> 4 < week r) pos_data))
      in \<lparr>rookie_avg = r_avg, veteran_avg = v_avg,
          performance_gap = fsub v_avg r_avg,
          gap_percentage =
            (if fgt v_avg (Fin 0) then fmul (fdiv (fsub v_avg r_avg) v_avg) (Fin 100)
             else Fin 0),
          early_season_avg = r_early, late_season_avg = r_late,
          adaptation_improvement =
            (if \<not> isna r_late \<and> \<not> isna r_early then fsub r_late r_early else Fin 0)\<rparr>)"

definition calculate_rookie_insights :: "obs list \<Rightarrow> (string \<times> rookie_insight) list" where
  "calculate_rookie_insights df = map (\<lambda>pos. (pos, rookie_insights_for pos df)) positions"

section \<open>Season totals\<close>

record season_total = player_key +
  season_points :: real

definition key4 :: "'a player_key_scheme \<Rightarrow> string \<times> string \<times> string \<times> int" where
  "key4 r = (player_id r, player_display_name r, position r, season r)"

text \<open>
  \<open>groupby(['player_id', 'player_display_name', 'position', 'season'])\<close> with the sum of the
  points: one row per distinct combination of the four columns, in ascending order.
\<close>

definition season_sums :: "obs list \<Rightarrow> season_total list" where
  "season_sums df =
     map (\<lambda>(i, n, p, s).
            \<lparr>player_id = i, player_display_name = n, position = p, season = s,
             season_points = sum_agg (map fantasy_points_ppr (group_rows key4 (i, n, p, s) df))\<rparr>)
       (group_keys key4 df)"

section \<open>Breakout insights\<close>

record season_change = season_total +
  prev_season_points :: fval
  yoy_change :: fval
  yoy_change_pct :: fval

text \<open>Rows of the players with at least two distinct seasons.\<close>

definition multi_season_data :: "obs list \<Rightarrow> obs list" where
  "multi_season_data df =
     filter (\<lambda>r. 2 \<le> length (remdups (map season (group_rows player_id (player_id r) df)))) df"

text \<open>
  \<open>groupby('player_id')[...].shift(1)\<close> walks the table in its order and gives each row the
  points of the previous row of the same player, NaN where there is none; the two
  derived columns follow. \<open>lst\<close> holds the last points seen for each player.
\<close>

definition with_change :: "fval \<Rightarrow> season_total \<Rightarrow> season_change" where
  "with_change pv t =
     (let yoy = fsub (Fin (season_points t)) pv
      in \<lparr>player_id = player_id t, player_display_name = player_display_name t,
          position = position t, season = season t, season_points = season_points t,
          prev_season_points = pv, yoy_change = yoy,
          yoy_change_pct = fmul (fdiv yoy pv) (Fin 100)\<rparr>)"

fun yoy_rows :: "(string \<Rightarrow> fval) \<Rightarrow> season_total list \<Rightarrow> season_change list" where
  "yoy_rows lst [] = []"
| "yoy_rows lst (t # ts) =
     with_change (lst (player_id t)) t
     # yoy_rows (lst(player_id t := Fin (season_points t))) ts"

text \<open>The table is ordered by \<open>sort_values(['player_id', 'season'])\<close>, a stable sort.\<close>

definition player_season :: "'a player_key_scheme \<Rightarrow> string \<times> int" where
  "player_season t = (player_id t, season t)"

definition player_season_stats :: "obs list \<Rightarrow> season_change list" where
  "player_season_stats df =
     yoy_rows (\<lambda>_. NaN) (sort_key player_season (season_sums (multi_season_data df)))"

definition valid_changes :: "obs list \<Rightarrow> season_change list" where
  "valid_changes df = filter (\<lambda>t. \<not> isna (yoy_change t)) (player_season_stats df)"

definition is_breakout :: "season_change \<Rightarrow> bool" where
  "is_breakout t \<longleftrightarrow> fgt (yoy_change t) (Fin 50) \<and> fgt (yoy_change_pct t) (Fin 25)"

definition is_bust :: "season_change \<Rightarrow> bool" where
  "is_bust t \<longleftrightarrow> flt (yoy_change t) (Fin (- 50)) \<and> flt (yoy_change_pct t) (Fin (- 25))"

record breakout_insight =
  breakouts :: "season_change list"
  busts :: "season_change list"
  breakout_rate :: real
  bust_rate :: real

text \<open>
  The entry of one position in \<open>calculate_breakout_insights\<close>, none when the position has
  no valid change (the mean and the deviation of the changes are left out).
\<close>

definition breakout_insights_for :: "string \<Rightarrow> obs list \<Rightarrow> breakout_insight option" where
  "breakout_insights_for pos df =
     (let pos_data = filter (\<lambda>t. position t = pos) (valid_changes df)
      in if pos_data = [] then None
         else (let bo = nlargest 10 yoy_change_pct (filter is_breakout pos_data);
                   bu = nsmallest 10 yoy_change_pct (filter is_bust pos_data)
               in Some \<lparr>breakouts = bo, busts = bu,
                    breakout_rate =
                      (if 0 < length pos_data
                       then real (length bo) / real (length pos_data) * 100 else 0),
                    bust_rate =
                      (if 0 < length pos_data
                       then real (length bu) / real (length pos_data) * 100 else 0)\<rparr>))"

definition calculate_breakout_insights :: "obs list \<Rightarrow> (string \<times> breakout_insight) list" where
  "calculate_breakout_insights df =
     List.map_filter (\<lambda>pos. map_option (\<lambda>i. (pos, i)) (breakout_insights_for pos df)) positions"

section \<open>Positional value insights\<close>

definition replacement_ranks :: "(string \<times> nat) list" where
  "replacement_ranks = [(''QB'', 12), (''RB'', 24), (''WR'', 24), (''TE'', 12)]"

definition replacement_rank :: "string \<Rightarrow> nat" where
  "replacement_rank pos = (case map_of replacement_ranks pos of Some n \<Rightarrow> n | None \<Rightarrow> 12)"

record position_insight =
  replacement_value :: real
  top_vbd_players :: "(season_total \<times> real) list"
  position_depth :: nat
  avg_starter_points :: fval
  scarcity_score :: fval

text \<open>
  The season totals of one season and position by descending points. The order of equal
  totals is not fixed by the sort the source uses; the model keeps them in table order.
\<close>

definition ranked_totals :: "int \<Rightarrow> string \<Rightarrow> obs list \<Rightarrow> season_total list" where
  "ranked_totals s pos df =
     sort_key (\<lambda>t. - season_points t)
       (filter (\<lambda>t. position t = pos) (filter (\<lambda>t. season t = s) (season_sums df)))"

text \<open>
  The entry of one season and position in \<open>calculate_positional_value_insights\<close>: none for
  an empty position; otherwise the baseline is read at index \<open>rank - 1\<close> when the list is
  long enough and at the last index when it is not.
\<close>

definition positional_value_for :: "int \<Rightarrow> string \<Rightarrow> obs list \<Rightarrow> position_insight option" where
  "positional_value_for s pos df =
     (let pos_data = ranked_totals s pos df
      in if pos_data = [] then None
         else (let rank = replacement_rank pos;
                   rv = (if rank \<le> length pos_data
                         then season_points (pos_data ! (rank - 1))
                         else season_points (last pos_data))
               in Some \<lparr>replacement_value = rv,
                    top_vbd_players = map (\<lambda>t. (t, season_points t - rv)) (take 10 pos_data),
                    position_depth = length (filter (\<lambda>t. rv < season_points t) pos_data),
                    avg_starter_points =
                      mean_agg (map (\<lambda>t. Some (season_points t)) (take rank pos_data)),
                    scarcity_score =
                      std_agg (map (\<lambda>t. Some (season_points t)) (take 5 pos_data))\<rparr>))"

definition calculate_positional_value_insights ::
    "obs list \<Rightarrow> (int \<times> (string \<times> position_insight) list) list" where
  "calculate_positional_value_insights df =
     map (\<lambda>s. (s, List.map_filter
                    (\<lambda>pos. map_option (\<lambda>i. (pos, i)) (positional_value_for s pos df)) positions))
       (sort (remdups (map season df)))"

section \<open>Draft recommendations\<close>

record player_metrics = named_row +
  avg_ppg :: fval
  std_ppg :: fval
  total_points :: real
  seasons_played :: nat

record scored_player = player_metrics +
  consistency_score :: fval
  draft_score :: fval

text \<open>
  The rows of the last three seasons for one position, grouped by display name. The column
  \<open>seasons_played\<close> is the \<open>count\<close> aggregation of the season column: the number of rows of
  the group.
\<close>

definition recent_data :: "int \<Rightarrow> obs list \<Rightarrow> obs list" where
  "recent_data current_season df =
     filter (\<lambda>r. season r \<in> set [current_season - 2, current_season - 1, current_season]) df"

definition player_metrics_for :: "int \<Rightarrow> string \<Rightarrow> obs list \<Rightarrow> player_metrics list" where
  "player_metrics_for current_season pos df =
     (let pos_data = filter (\<lambda>r. position r = pos) (recent_data current_season df)
      in map (\<lambda>n. let g = group_rows player_display_name n pos_data;
                       pts = map fantasy_points_ppr g
                   in \<lparr>player = n, avg_ppg = mean_agg pts, std_ppg = std_agg pts,
                       total_points = sum_agg pts, seasons_played = length g\<rparr>)
           (group_keys player_display_name pos_data))"

definition score_player :: "player_metrics \<Rightarrow> scored_player" where
  "score_player t =
     (let cs = fdiv (avg_ppg t) (fadd (std_ppg t) (Fin 1))
      in \<lparr>player = player t, avg_ppg = avg_ppg t, std_ppg = std_ppg t,
          total_points = total_points t, seasons_played = seasons_played t,
          consistency_score = cs,
          draft_score = fadd (fmul (avg_ppg t) (Fin (7 / 10))) (fmul cs (Fin (3 / 10)))\<rparr>)"

definition experienced_players :: "int \<Rightarrow> string \<Rightarrow> obs list \<Rightarrow> scored_player list" where
  "experienced_players current_season pos df =
     map score_player
       (filter (\<lambda>t. 2 \<le> seasons_played t) (player_metrics_for current_season pos df))"

record recommendation =
  safe_picks :: "scored_player list"
  upside_picks :: "scored_player list"
  overall_rankings :: "scored_player list"

definition recommendations_for :: "int \<Rightarrow> string \<Rightarrow> obs list \<Rightarrow> recommendation option" where
  "recommendations_for current_season pos df =
     (let ep = experienced_players current_season pos df
      in if ep = [] then None
         else Some \<lparr>safe_picks = nlargest 5 consistency_score ep,
                    upside_picks = nlargest 5 avg_ppg ep,
                    overall_rankings = nlargest 10 draft_score ep\<rparr>)"

definition generate_draft_recommendations ::
    "obs list \<Rightarrow> int \<Rightarrow> (string \<times> recommendation) list" where
  "generate_draft_recommendations df current_season =
     List.map_filter
       (\<lambda>pos. map_option (\<lambda>i. (pos, i)) (recommendations_for current_season pos df)) positions"

section \<open>The summary and missing columns\<close>

text \<open>
  A table as the summary receives it: the names of its columns and its rows. Reading a
  column that the table does not have raises \<open>KeyError\<close>. Each computation reads its
  columns in a fixed order, so the first one missing is the one reported.
\<close>

record data_frame =
  columns :: "string list"
  rows :: "obs list"

datatype error = KeyError string

definition first_missing :: "string list \<Rightarrow> data_frame \<Rightarrow> string option" where
  "first_missing cs df = find (\<lambda>c. c \<notin> set (columns df)) cs"

definition rookie_insights_of :: "data_frame \<Rightarrow> error + (string \<times> rookie_insight) list" where
  "rookie_insights_of df =
     (case first_missing [''player_id'', ''season'', ''position'', ''fantasy_points_ppr'',
                          ''player_display_name'', ''week''] df of
        Some c \<Rightarrow> Inl (KeyError c)
      | None \<Rightarrow> Inr (calculate_rookie_insights (rows df)))"

definition calculate_consistency_insights :: "obs list \<Rightarrow> (string \<times> consistency_insight) list" where
  "calculate_consistency_insights df =
     List.map_filter
       (\<lambda>pos. let pc = player_consistency_16 pos df
              in if pc = [] then None
                 else Some (pos, \<lparr>most_consistent = nsmallest 5 cv pc,
                                  highest_ceiling = nlargest 5 ceiling_points pc,
                                  highest_floor = nlargest 5 floor_points pc,
                                  total_players_analyzed = length pc\<rparr>)) positions"

definition consistency_insights_of ::
    "data_frame \<Rightarrow> error + (string \<times> consistency_insight) list" where
  "consistency_insights_of df =
     (case first_missing [''position'', ''player_display_name'', ''fantasy_points_ppr''] df of
        Some c \<Rightarrow> Inl (KeyError c)
      | None \<Rightarrow> Inr (calculate_consistency_insights (rows df)))"

definition breakout_insights_of :: "data_frame \<Rightarrow> error + (string \<times> breakout_insight) list" where
  "breakout_insights_of df =
     (case first_missing [''player_id'', ''season'', ''player_display_name'', ''position'',
                          ''fantasy_points_ppr''] df of
        Some c \<Rightarrow> Inl (KeyError c)
      | None \<Rightarrow> Inr (calculate_breakout_insights (rows df)))"

text \<open>
  \<open>display_insights_summary\<close> computes the three insights one after the other, with no
  handler around any of them, before anything is rendered.
\<close>

definition display_insights_summary ::
    "data_frame \<Rightarrow> error + ((string \<times> rookie_insight) list
        \<times> (string \<times> consistency_insight) list \<times> (string \<times> breakout_insight) list)" where
  "display_insights_summary df =
     (case rookie_insights_of df of
        Inl e \<Rightarrow> Inl e
      | Inr rookie_insights \<Rightarrow>
          (case consistency_insights_of df of
             Inl e \<Rightarrow> Inl e
           | Inr consistency_insights \<Rightarrow>
               (case breakout_insights_of df of
                  Inl e \<Rightarrow> Inl e
                | Inr breakout_insights \<Rightarrow>
                    Inr (rookie_insights, consistency_insights, breakout_insights))))"

section \<open>Sample tables\<close>

definition game :: "string \<Rightarrow> string \<Rightarrow> string \<Rightarrow> int \<Rightarrow> int \<Rightarrow> real \<Rightarrow> obs" where
  "game i n p s w x =
     \<lparr>player_id = i, player_display_name = n, position = p, season = s, week = w,
      fantasy_points_ppr = Some x\<rparr>"

text \<open>A quarterback with a single game.\<close>

definition one_game :: "obs list" where
  "one_game = [game ''p1'' ''A'' ''QB'' 2023 1 (25 / 2)]"

text \<open>Eleven running backs, each going from 100 points in 2020 to 200 points in 2021.\<close>

definition eleven_risers :: "obs list" where
  "eleven_risers =
     concat (map (\<lambda>c. [game [c] [c] ''RB'' 2020 1 100, game [c] [c] ''RB'' 2021 1 200])
       ''abcdefghijk'')"

text \<open>A quarterback with one game in each of two seasons.\<close>

definition qb_two_seasons :: "obs list" where
  "qb_two_seasons = [game ''p1'' ''A'' ''QB'' 2022 1 10, game ''p1'' ''A'' ''QB'' 2023 1 20]"

text \<open>A running back with no points in 2020 and 60 points in 2021.\<close>

definition zero_base :: "obs list" where
  "zero_base = [game ''p2'' ''B'' ''RB'' 2020 1 0, game ''p2'' ''B'' ''RB'' 2021 1 60]"

text \<open>A receiver with two games, both in 2024.\<close>

definition two_games_2024 :: "obs list" where
  "two_games_2024 = [game ''p1'' ''A'' ''WR'' 2024 1 10, game ''p1'' ''A'' ''WR'' 2024 2 20]"

text \<open>A table without the week column, and the same table with it.\<close>

definition no_week :: data_frame where
  "no_week = \<lparr>columns = [''player_id'', ''player_display_name'', ''position'', ''season'',
                         ''fantasy_points_ppr''],
              rows = eleven_risers\<rparr>"

definition full_frame :: data_frame where
  "full_frame = \<lparr>columns = [''player_id'', ''player_display_name'', ''position'', ''season'',
                            ''week'', ''fantasy_points_ppr''],
                 rows = eleven_risers\<rparr>"

text \<open>A receiver with games of 16, 20 and 24 points: mean 20, sample deviation 4.\<close>

definition three_games :: "obs list" where
  "three_games = [game ''p1'' ''A'' ''WR'' 2023 1 16, game ''p1'' ''A'' ''WR'' 2024 1 20,
                  game ''p1'' ''A'' ''WR'' 2024 2 24]"

text \<open>Thirteen quarterbacks with totals 1 to 13, and three running backs.\<close>

definition thirteen_qbs :: "obs list" where
  "thirteen_qbs =
     map (\<lambda>(c, x). game [c] [c] ''QB'' 2023 1 x)
       (zip ''abcdefghijklm'' [5, 13, 1, 9, 2, 11, 3, 7, 4, 12, 6, 10, 8])"

definition three_rbs :: "obs list" where
  "three_rbs = [game ''a'' ''a'' ''RB'' 2023 1 30, game ''b'' ''b'' ''RB'' 2023 1 10,
                game ''c'' ''c'' ''RB'' 2023 1 20]"



section \<open>Tables with one listing per player and season\<close>


section \<open>Facts about the aggregations\<close>

lemma length_dropna_le: "length (dropna vs) \<le> length vs"
  by (induction vs) (auto simp: dropna_def List.map_filter_simps split: option.splits)

lemma std_agg_short: "length vs < 2 \<Longrightarrow> std_agg vs = NaN"
  using length_dropna_le [of vs] by (simp add: std_agg_def Let_def)

text \<open>
  Claim C8. In the aggregate table of the consistency insights, a player whose group has
  exactly one row gets a missing standard deviation: the cell is NaN, not 0, and the
  aggregation returns a row for that player (nothing is raised).
\<close>

theorem std_of_singleton_group_is_missing:
  assumes "n \<in> set (map player_display_name (filter (\<lambda>r. position r = pos) df))"
    and "length (filter (\<lambda>r. position r = pos \<and> player_display_name r = n) df) = 1"
  shows "(\<exists>t \<in> set (player_consistency pos df). player t = n) \<and>
    (\<forall>t \<in> set (player_consistency pos df).
       player t = n \<longrightarrow> std_points t = NaN \<and> std_points t \<noteq> Fin 0 \<and> games t \<le> 1)"
proof -
  let ?pd = "filter (\<lambda>r. position r = pos) df"
  let ?pts = "map fantasy_points_ppr (group_rows player_display_name n ?pd)"
  have len: "length ?pts = 1"
    using assms(2) by (simp add: group_rows_def conj_commute)
  then have std: "std_agg ?pts = NaN"
    by (simp add: std_agg_short)
  have cnt: "count_agg ?pts \<le> 1"
    using length_dropna_le [of ?pts] len by (simp add: count_agg_def)
  have key: "n \<in> set (group_keys player_display_name ?pd)"
    using assms(1) by (simp add: group_keys_def)
  have ex: "\<exists>t \<in> set (player_consistency pos df). player t = n"
    unfolding player_consistency_def Let_def using key
    by (intro bexI [where x = "\<lparr>player = n, avg_points = mean_agg ?pts,
          std_points = std_agg ?pts, games = count_agg ?pts, min_points = min_agg ?pts,
          max_points = max_agg ?pts\<rparr>"]) auto
  have all: "\<forall>t \<in> set (player_consistency pos df).
           player t = n \<longrightarrow> std_points t = NaN \<and> std_points t \<noteq> Fin 0 \<and> games t \<le> 1"
    unfolding player_consistency_def Let_def using std cnt by auto
  from ex all show ?thesis by blast
qed

theorem std_of_singleton_group_is_missing_witness:
  "''A'' \<in> set (map player_display_name (filter (\<lambda>r. position r = ''QB'') one_game))
   \<and> length (filter (\<lambda>r. position r = ''QB'' \<and> player_display_name r = ''A'') one_game) = 1
   \<and> map player (player_consistency ''QB'' one_game) = [''A'']
   \<and> map std_points (player_consistency ''QB'' one_game) = [NaN]"
proof -
  have h1: "''A'' \<in> set (map player_display_name (filter (\<lambda>r. position r = ''QB'') one_game))"
    by (simp add: one_game_def game_def)
  have h2: "length (filter (\<lambda>r. position r = ''QB'' \<and> player_display_name r = ''A'') one_game) = 1"
    by (simp add: one_game_def game_def)
  have names: "map player (player_consistency ''QB'' one_game) = [''A'']"
    by (simp add: player_consistency_def one_game_def game_def group_keys_def Let_def)
  then obtain t where t: "player_consistency ''QB'' one_game = [t]" "player t = ''A''"
    by (cases "player_consistency ''QB'' one_game") auto
  have "std_points t = NaN"
    using std_of_singleton_group_is_missing [OF h1 h2] t by simp
  with h1 h2 names t show ?thesis by simp
qed

section \<open>Breakout and bust rates\<close>

lemma eleven_risers_changes:
  "length (filter (\<lambda>t. position t = ''RB'') (valid_changes eleven_risers)) = 11"
  by code_simp

lemma eleven_risers_breakouts:
  "length (filter is_breakout
     (filter (\<lambda>t. position t = ''RB'') (valid_changes eleven_risers))) = 11"
  by code_simp

lemma eleven_risers_busts:
  "length (filter is_bust
     (filter (\<lambda>t. position t = ''RB'') (valid_changes eleven_risers))) = 0"
  by code_simp

lemma eleven_risers_entry: "breakout_insights_for ''RB'' eleven_risers \<noteq> None"
  by code_simp

text \<open>
  Claim C10. The two rates of a position are computed from the lists already cut to ten
  rows: each rate is the smaller of ten and the number of qualifying changes, divided by
  the number of valid changes of the position, times 100; so neither exceeds
  10 / (number of valid changes) * 100.
\<close>

theorem breakout_rates_use_truncated_lists:
  assumes "breakout_insights_for pos df = Some ins"
  shows "breakout_rate ins =
           real (min (length (filter is_breakout
                   (filter (\<lambda>t. position t = pos) (valid_changes df)))) 10)
           / real (length (filter (\<lambda>t. position t = pos) (valid_changes df))) * 100
       \<and> bust_rate ins =
           real (min (length (filter is_bust
                   (filter (\<lambda>t. position t = pos) (valid_changes df)))) 10)
           / real (length (filter (\<lambda>t. position t = pos) (valid_changes df))) * 100
       \<and> breakout_rate ins
           \<le> 10 / real (length (filter (\<lambda>t. position t = pos) (valid_changes df))) * 100
       \<and> bust_rate ins
           \<le> 10 / real (length (filter (\<lambda>t. position t = pos) (valid_changes df))) * 100"
proof -
  let ?pd = "filter (\<lambda>t. position t = pos) (valid_changes df)"
  from assms have ne: "?pd \<noteq> []"
    by (auto simp: breakout_insights_for_def Let_def split: if_splits)
  then have pos_len: "0 < length ?pd" by simp
  from assms ne have br: "breakout_rate ins =
      real (length (nlargest 10 yoy_change_pct (filter is_breakout ?pd))) / real (length ?pd) * 100"
    by (auto simp: breakout_insights_for_def Let_def split: if_splits)
  from assms ne have bu: "bust_rate ins =
      real (length (nsmallest 10 yoy_change_pct (filter is_bust ?pd))) / real (length ?pd) * 100"
    by (auto simp: breakout_insights_for_def Let_def split: if_splits)
  have l1: "length (nlargest 10 yoy_change_pct (filter is_breakout ?pd))
      = min (length (filter is_breakout ?pd)) 10"
    by (simp add: nlargest_def min.commute)
  have l2: "length (nsmallest 10 yoy_change_pct (filter is_bust ?pd))
      = min (length (filter is_bust ?pd)) 10"
    by (simp add: nsmallest_def min.commute)
  have b1: "real (min (length (filter is_breakout ?pd)) 10) / real (length ?pd) * 100
      \<le> 10 / real (length ?pd) * 100"
    using pos_len by (intro mult_right_mono divide_right_mono) auto
  have b2: "real (min (length (filter is_bust ?pd)) 10) / real (length ?pd) * 100
      \<le> 10 / real (length ?pd) * 100"
    using pos_len by (intro mult_right_mono divide_right_mono) auto
  show ?thesis
    using br bu b1 b2 unfolding l1 l2 by simp
qed

theorem breakout_rates_use_truncated_lists_witness:
  "breakout_insights_for ''RB'' eleven_risers \<noteq> None
   \<and> length (filter is_breakout
        (filter (\<lambda>t. position t = ''RB'') (valid_changes eleven_risers))) = 11
   \<and> breakout_rate (the (breakout_insights_for ''RB'' eleven_risers)) = 10 / 11 * 100
   \<and> bust_rate (the (breakout_insights_for ''RB'' eleven_risers)) = 0"
proof -
  obtain ins where ins: "breakout_insights_for ''RB'' eleven_risers = Some ins"
    using eleven_risers_entry by blast
  show ?thesis
    using breakout_rates_use_truncated_lists [OF ins] ins eleven_risers_changes
      eleven_risers_breakouts eleven_risers_busts
    by simp
qed

section \<open>Rookie versus veteran gap\<close>

lemma mean_agg_cases: "mean_agg vs = NaN \<or> (\<exists>m. mean_agg vs = Fin m)"
  by (simp add: mean_agg_def Let_def)

text \<open>
  Counterexample to claim C6 as stated: a position with rookies only has a missing
  veteran average, and the gap percentage is then the number 0, not a missing value.
\<close>

theorem gap_percentage_counterexample:
  "veteran_avg (rookie_insights_for ''QB'' one_game) = NaN
   \<and> gap_percentage (rookie_insights_for ''QB'' one_game) = Fin 0
   \<and> gap_percentage (rookie_insights_for ''QB'' one_game) \<noteq> NaN"
  by code_simp

text \<open>
  Claim C6, amended. The gap percentage is 0 whenever the veteran average is missing, zero
  or negative; when the veteran average is positive it is (veteran - rookie) / veteran * 100,
  and missing exactly when the rookie average is missing.
\<close>

theorem gap_percentage_guarded:
  "gap_percentage (rookie_insights_for pos df) =
     (case veteran_avg (rookie_insights_for pos df) of
        Fin v \<Rightarrow>
          if 0 < v
          then (case rookie_avg (rookie_insights_for pos df) of
                  Fin r \<Rightarrow> Fin ((v - r) / v * 100)
                | _ \<Rightarrow> NaN)
          else Fin 0
      | _ \<Rightarrow> Fin 0)"
proof -
  let ?pd = "filter (\<lambda>r. position r = pos) (df_with_rookie df)"
  let ?r = "mean_agg (map fantasy_points_ppr (filter is_rookie ?pd))"
  let ?v = "mean_agg (map fantasy_points_ppr (filter (\<lambda>r. \<not> is_rookie r) ?pd))"
  have g: "gap_percentage (rookie_insights_for pos df) =
      (if fgt ?v (Fin 0) then fmul (fdiv (fsub ?v ?r) ?v) (Fin 100) else Fin 0)"
    by (simp add: rookie_insights_for_def Let_def)
  have v: "veteran_avg (rookie_insights_for pos df) = ?v"
    by (simp add: rookie_insights_for_def Let_def)
  have r: "rookie_avg (rookie_insights_for pos df) = ?r"
    by (simp add: rookie_insights_for_def Let_def)
  show ?thesis
    unfolding g v r using mean_agg_cases [of "map fantasy_points_ppr (filter is_rookie ?pd)"]
      mean_agg_cases [of "map fantasy_points_ppr (filter (\<lambda>r. \<not> is_rookie r) ?pd)"]
    by (auto simp: fsub_def)
qed

theorem gap_percentage_guarded_witness:
  "veteran_avg (rookie_insights_for ''QB'' qb_two_seasons) = Fin 20
   \<and> rookie_avg (rookie_insights_for ''QB'' qb_two_seasons) = Fin 10
   \<and> gap_percentage (rookie_insights_for ''QB'' qb_two_seasons) = Fin 50"
proof -
  have v: "veteran_avg (rookie_insights_for ''QB'' qb_two_seasons) = Fin 20"
    by code_simp
  have r: "rookie_avg (rookie_insights_for ''QB'' qb_two_seasons) = Fin 10"
    by code_simp
  show ?thesis
    using gap_percentage_guarded [of "''QB''" qb_two_seasons] v r by simp
qed


section \<open>Percentage change from a zero base\<close>

text \<open>
  Counterexample to claim C5 as stated: with 0 points in the prior season and 60 in the
  next, the percentage change is plus infinity, and the season heads the breakouts.
\<close>

theorem zero_base_pct_counterexample:
  "map prev_season_points (valid_changes zero_base) = [Fin 0]
   \<and> map yoy_change_pct (valid_changes zero_base) = [PInf]
   \<and> map season (breakouts (the (breakout_insights_for ''RB'' zero_base))) = [2021]"
  by code_simp

lemma yoy_rows_columns:
  "t \<in> set (yoy_rows lst ts) \<Longrightarrow>
     yoy_change t = fsub (Fin (season_points t)) (prev_season_points t)
     \<and> yoy_change_pct t = fmul (fdiv (yoy_change t) (prev_season_points t)) (Fin 100)"
  by (induction ts arbitrary: lst) (auto simp: with_change_def Let_def)

text \<open>
  Claim C5, amended. For a player-season whose prior season total is zero, the change is
  the season's own total and stays among the valid changes; the percentage change is
  plus infinity for a positive total, minus infinity for a negative one, and missing only
  when the total is zero too. Such a season is a breakout when its total exceeds 50 and a
  bust when it is below -50.
\<close>

theorem zero_base_pct_is_infinite:
  assumes "t \<in> set (player_season_stats df)" and "prev_season_points t = Fin 0"
  shows "yoy_change t = Fin (season_points t)
    \<and> yoy_change_pct t =
        (if 0 < season_points t then PInf else if season_points t < 0 then NInf else NaN)
    \<and> t \<in> set (valid_changes df)
    \<and> (is_breakout t \<longleftrightarrow> 50 < season_points t)
    \<and> (is_bust t \<longleftrightarrow> season_points t < - 50)"
proof -
  from assms(1) have cols:
    "yoy_change t = fsub (Fin (season_points t)) (prev_season_points t)"
    "yoy_change_pct t = fmul (fdiv (yoy_change t) (prev_season_points t)) (Fin 100)"
    unfolding player_season_stats_def by (auto dest: yoy_rows_columns)
  have yoy: "yoy_change t = Fin (season_points t)"
    using cols(1) assms(2) by (simp add: fsub_def)
  have pct: "yoy_change_pct t =
      (if 0 < season_points t then PInf else if season_points t < 0 then NInf else NaN)"
    using cols(2) assms(2) yoy by simp
  have valid: "t \<in> set (valid_changes df)"
    using assms(1) yoy by (simp add: valid_changes_def isna_def)
  have bo: "is_breakout t \<longleftrightarrow> 50 < season_points t"
    using yoy pct by (auto simp: is_breakout_def)
  have bu: "is_bust t \<longleftrightarrow> season_points t < - 50"
    using yoy pct by (auto simp: is_bust_def flt_def)
  from yoy pct valid bo bu show ?thesis by blast
qed

theorem zero_base_pct_is_infinite_witness:
  "last (player_season_stats zero_base) \<in> set (player_season_stats zero_base)
   \<and> prev_season_points (last (player_season_stats zero_base)) = Fin 0
   \<and> season_points (last (player_season_stats zero_base)) = 60
   \<and> yoy_change_pct (last (player_season_stats zero_base)) = PInf
   \<and> last (player_season_stats zero_base) \<in> set (valid_changes zero_base)
   \<and> is_breakout (last (player_season_stats zero_base))"
proof -
  have h1: "last (player_season_stats zero_base) \<in> set (player_season_stats zero_base)"
    by code_simp
  have h2: "prev_season_points (last (player_season_stats zero_base)) = Fin 0"
    by code_simp
  have h3: "season_points (last (player_season_stats zero_base)) = 60"
    by code_simp
  show ?thesis
    using zero_base_pct_is_infinite [OF h1 h2] h1 h2 h3 by simp
qed


section \<open>The experience filter of the recommendations\<close>

text \<open>
  Claim C7 at a failing input: a receiver with two games in the single season 2024 passes
  the filter on \<open>seasons_played\<close> and is recommended, although only one distinct season
  lies in the window. The filter counts rows, not seasons.
\<close>

theorem two_games_one_season_is_experienced:
  "map player (experienced_players 2024 ''WR'' two_games_2024) = [''A'']
   \<and> map seasons_played (experienced_players 2024 ''WR'' two_games_2024) = [2]
   \<and> remdups (map season two_games_2024) = [2024]
   \<and> map player (overall_rankings (the (recommendations_for 2024 ''WR'' two_games_2024))) = [''A'']"
  by (simp add: experienced_players_def player_metrics_for_def recent_data_def
      two_games_2024_def game_def group_keys_def group_rows_def score_player_def
      recommendations_for_def Let_def nlargest_def)


section \<open>The summary stops at the first failure\<close>

text \<open>
  Counterexample to claim C9 as stated: on a table without the week column the rookie
  insights fail, the consistency and breakout insights would both succeed, and the
  summary as a whole fails with the rookie error.
\<close>

theorem summary_aborts_counterexample:
  "display_insights_summary no_week = Inl (KeyError ''week'')
   \<and> \<not> isl (consistency_insights_of no_week)
   \<and> \<not> isl (breakout_insights_of no_week)
   \<and> map fst (projr (breakout_insights_of no_week)) = [''RB'']"
proof -
  have a: "display_insights_summary no_week = Inl (KeyError ''week'')"
    by (simp add: display_insights_summary_def rookie_insights_of_def first_missing_def
        no_week_def)
  have b: "\<not> isl (consistency_insights_of no_week)"
    by (simp add: consistency_insights_of_def first_missing_def no_week_def)
  have c: "\<not> isl (breakout_insights_of no_week)"
    by (simp add: breakout_insights_of_def first_missing_def no_week_def)
  have d: "map fst (projr (breakout_insights_of no_week)) = [''RB'']"
    by code_simp
  from a b c d show ?thesis by blast
qed

text \<open>
  Claim C9, amended. The summary computes the rookie, consistency and breakout insights in
  sequence without isolating them: it fails as soon as one of them fails, with the error of
  the first one that fails, and yields the three results only when all three succeed.
\<close>

theorem summary_is_all_or_nothing:
  "(isl (display_insights_summary df) \<longleftrightarrow>
      isl (rookie_insights_of df) \<or> isl (consistency_insights_of df)
        \<or> isl (breakout_insights_of df))
   \<and> (display_insights_summary df =
        (if isl (rookie_insights_of df) then Inl (projl (rookie_insights_of df))
         else if isl (consistency_insights_of df) then Inl (projl (consistency_insights_of df))
         else if isl (breakout_insights_of df) then Inl (projl (breakout_insights_of df))
         else Inr (projr (rookie_insights_of df), projr (consistency_insights_of df),
                   projr (breakout_insights_of df))))"
  by (auto simp: display_insights_summary_def split: sum.splits)


theorem summary_is_all_or_nothing_witness:
  "\<not> isl (rookie_insights_of full_frame) \<and> \<not> isl (consistency_insights_of full_frame)
   \<and> \<not> isl (breakout_insights_of full_frame) \<and> \<not> isl (display_insights_summary full_frame)"
proof -
  have a: "\<not> isl (rookie_insights_of full_frame)"
    by (simp add: rookie_insights_of_def first_missing_def full_frame_def)
  have b: "\<not> isl (consistency_insights_of full_frame)"
    by (simp add: consistency_insights_of_def first_missing_def full_frame_def)
  have c: "\<not> isl (breakout_insights_of full_frame)"
    by (simp add: breakout_insights_of_def first_missing_def full_frame_def)
  show ?thesis
    using summary_is_all_or_nothing [of full_frame] a b c by simp
qed

section \<open>Consistency and draft scores\<close>

lemma std_agg_cases: "std_agg vs = NaN \<or> (\<exists>s. std_agg vs = Fin s \<and> 0 \<le> s)"
proof (cases "length (dropna vs) < 2")
  case True
  then show ?thesis by (simp add: std_agg_def Let_def)
next
  case False
  let ?m = "sum_list (dropna vs) / real (length (dropna vs))"
  have "0 \<le> sum_list (map (\<lambda>x. (x - ?m)\<^sup>2) (dropna vs))"
    by (intro sum_list_nonneg) auto
  then have "0 \<le> sum_list (map (\<lambda>x. (x - ?m)\<^sup>2) (dropna vs))
      / real (length (dropna vs) - 1)"
    by (intro divide_nonneg_nonneg) auto
  then have "0 \<le> sqrt (sum_list (map (\<lambda>x. (x - ?m)\<^sup>2) (dropna vs))
      / real (length (dropna vs) - 1))"
    by (simp only: real_sqrt_ge_zero)
  with False show ?thesis
    unfolding std_agg_def Let_def by (intro disjI2) (simp del: of_nat_diff)
qed

lemma experienced_players_columns:
  assumes "t \<in> set (experienced_players current_season pos df)"
  shows "\<exists>vs. avg_ppg t = mean_agg vs \<and> std_ppg t = std_agg vs
    \<and> consistency_score t = fdiv (avg_ppg t) (fadd (std_ppg t) (Fin 1))
    \<and> draft_score t = fadd (fmul (avg_ppg t) (Fin (7 / 10)))
         (fmul (consistency_score t) (Fin (3 / 10)))"
  using assms
  by (auto simp: experienced_players_def player_metrics_for_def score_player_def Let_def)

text \<open>
  Claim C2. For every player that passes the filter of the recommendations, the consistency
  score is the mean divided by (standard deviation + 1) and the draft score is 0.7 times the
  mean plus 0.3 times the consistency score (both missing when the mean or the deviation is
  missing); a mean of 20 with a deviation of 4 gives 4 and 15.2.
\<close>

theorem scorer_formulas:
  assumes "t \<in> set (experienced_players current_season pos df)"
  shows "consistency_score t =
           (case avg_ppg t of
              Fin m \<Rightarrow> (case std_ppg t of Fin s \<Rightarrow> Fin (m / (s + 1)) | _ \<Rightarrow> NaN)
            | _ \<Rightarrow> NaN)
       \<and> draft_score t =
           (case avg_ppg t of
              Fin m \<Rightarrow> (case consistency_score t of
                          Fin c \<Rightarrow> Fin (7 / 10 * m + 3 / 10 * c) | _ \<Rightarrow> NaN)
            | _ \<Rightarrow> NaN)
       \<and> (avg_ppg t = Fin 20 \<and> std_ppg t = Fin 4
            \<longrightarrow> consistency_score t = Fin 4 \<and> draft_score t = Fin (76 / 5))"
proof -
  from experienced_players_columns [OF assms] obtain vs where
    avg: "avg_ppg t = mean_agg vs" and std: "std_ppg t = std_agg vs" and
    cs: "consistency_score t = fdiv (avg_ppg t) (fadd (std_ppg t) (Fin 1))" and
    ds: "draft_score t = fadd (fmul (avg_ppg t) (Fin (7 / 10)))
           (fmul (consistency_score t) (Fin (3 / 10)))"
    by blast
  have a: "avg_ppg t = NaN \<or> (\<exists>m. avg_ppg t = Fin m)"
    using mean_agg_cases [of vs] avg by simp
  have s: "std_ppg t = NaN \<or> (\<exists>s. std_ppg t = Fin s \<and> 0 \<le> s)"
    using std_agg_cases [of vs] std by simp
  have c1: "consistency_score t =
      (case avg_ppg t of
         Fin m \<Rightarrow> (case std_ppg t of Fin s \<Rightarrow> Fin (m / (s + 1)) | _ \<Rightarrow> NaN)
       | _ \<Rightarrow> NaN)"
    using a s cs by auto
  have c2: "draft_score t =
      (case avg_ppg t of
         Fin m \<Rightarrow> (case consistency_score t of
                     Fin c \<Rightarrow> Fin (7 / 10 * m + 3 / 10 * c) | _ \<Rightarrow> NaN)
       | _ \<Rightarrow> NaN)"
    using a s ds c1 by (auto simp: mult.commute)
  have c3: "avg_ppg t = Fin 20 \<and> std_ppg t = Fin 4
      \<longrightarrow> consistency_score t = Fin 4 \<and> draft_score t = Fin (76 / 5)"
    using c1 c2 by auto
  from c1 c2 c3 show ?thesis by blast
qed

lemma sqrt_16: "sqrt 16 = 4"
proof -
  have "sqrt (4\<^sup>2) = 4" by (simp del: power2_eq_square)
  then show ?thesis by simp
qed

theorem scorer_formulas_witness:
  "map player (experienced_players 2024 ''WR'' three_games) = [''A'']
   \<and> map avg_ppg (experienced_players 2024 ''WR'' three_games) = [Fin 20]
   \<and> map std_ppg (experienced_players 2024 ''WR'' three_games) = [Fin 4]
   \<and> map consistency_score (experienced_players 2024 ''WR'' three_games) = [Fin 4]
   \<and> map draft_score (experienced_players 2024 ''WR'' three_games) = [Fin (76 / 5)]"
proof -
  have n: "map player (experienced_players 2024 ''WR'' three_games) = [''A'']"
    by (simp add: experienced_players_def player_metrics_for_def recent_data_def
      three_games_def game_def group_keys_def group_rows_def score_player_def Let_def)
  have a: "map avg_ppg (experienced_players 2024 ''WR'' three_games) = [Fin 20]"
    by (simp add: experienced_players_def player_metrics_for_def recent_data_def
      three_games_def game_def group_keys_def group_rows_def score_player_def Let_def
      mean_agg_def dropna_def)
  have s: "map std_ppg (experienced_players 2024 ''WR'' three_games) = [Fin 4]"
    by (simp add: experienced_players_def player_metrics_for_def recent_data_def
      three_games_def game_def group_keys_def group_rows_def score_player_def Let_def
      std_agg_def dropna_def sqrt_16)
  from n obtain t where t: "experienced_players 2024 ''WR'' three_games = [t]"
    by (cases "experienced_players 2024 ''WR'' three_games") auto
  then have mem: "t \<in> set (experienced_players 2024 ''WR'' three_games)" by simp
  show ?thesis
    using scorer_formulas [OF mem] n a s t by simp
qed

section \<open>Rookie flags\<close>

lemma set_group_keys: "set (group_keys f xs) = f ` set xs"
  by (simp add: group_keys_def)

lemma group_seasons:
  "set (map season (group_rows player_id p df)) = season ` {r \<in> set df. player_id r = p}"
  by (auto simp: group_rows_def)

lemma map_of_keyed: "map_of (map (\<lambda>k. (k, f k)) ks) p = (if p \<in> set ks then Some (f p) else None)"
  by (induction ks) auto

lemma first_season_lookup:
  "map_of (player_first_season df) p =
     (if p \<in> player_id ` set df
      then Some (Min (season ` {r \<in> set df. player_id r = p})) else None)"
  unfolding player_first_season_def group_seasons
  by (simp add: map_of_keyed set_group_keys)

lemma df_with_rookie_row:
  assumes "t \<in> set (df_with_rookie df)"
  shows "\<exists>r \<in> set df. player_id t = player_id r \<and> season t = season r
           \<and> rookie_season t = map_of (player_first_season df) (player_id r)
           \<and> is_rookie t = (rookie_season t = Some (season r))"
  using assms by (auto simp: df_with_rookie_def Let_def)

lemma df_with_rookie_of_row:
  assumes "r \<in> set df"
  shows "\<exists>t \<in> set (df_with_rookie df). player_id t = player_id r \<and> season t = season r"
  using assms by (force simp: df_with_rookie_def Let_def)

lemma rookie_iff_min:
  assumes "t \<in> set (df_with_rookie df)"
  shows "is_rookie t \<longleftrightarrow> season t = Min (season ` {r \<in> set df. player_id r = player_id t})"
proof -
  from df_with_rookie_row [OF assms] obtain r where r: "r \<in> set df"
    "player_id t = player_id r" "season t = season r"
    "rookie_season t = map_of (player_first_season df) (player_id r)"
    "is_rookie t = (rookie_season t = Some (season r))"
    by blast
  have "map_of (player_first_season df) (player_id r)
      = Some (Min (season ` {r' \<in> set df. player_id r' = player_id r}))"
    using r(1) by (simp add: first_season_lookup)
  with r show ?thesis by auto
qed

lemma min_season_attained:
  assumes "r \<in> set df"
  shows "\<exists>r' \<in> set df. player_id r' = player_id r
     \<and> season r' = Min (season ` {x \<in> set df. player_id x = player_id r})"
proof -
  let ?S = "season ` {x \<in> set df. player_id x = player_id r}"
  have "finite ?S" by simp
  moreover have "?S \<noteq> {}" using assms by auto
  ultimately have "Min ?S \<in> ?S" by (rule Min_in)
  then show ?thesis by auto
qed

text \<open>
  Claim C1. The flagged table has the rows of the input table, in order, and a row is
  flagged rookie exactly when its season is the least season among the rows of its player.
  So a player all of whose rows lie in one season has every row flagged, and for any player
  some season is flagged and no row of another season of that player is.
\<close>

theorem rookie_flag_is_first_season:
  "map player_id (df_with_rookie df) = map player_id df
   \<and> map season (df_with_rookie df) = map season df
   \<and> (\<forall>t \<in> set (df_with_rookie df).
        (is_rookie t \<longleftrightarrow>
           season t = Min (season ` {r \<in> set df. player_id r = player_id t}))
      \<and> ((\<forall>r \<in> set df. player_id r = player_id t \<longrightarrow> season r = season t) \<longrightarrow> is_rookie t)
      \<and> (\<exists>u \<in> set (df_with_rookie df). player_id u = player_id t \<and> is_rookie u)
      \<and> (\<forall>u \<in> set (df_with_rookie df).
            player_id u = player_id t \<and> is_rookie u \<and> season u \<noteq> season t
              \<longrightarrow> \<not> is_rookie t))"
proof -
  have ids: "map player_id (df_with_rookie df) = map player_id df"
    by (simp add: df_with_rookie_def Let_def comp_def)
  have seasons: "map season (df_with_rookie df) = map season df"
    by (simp add: df_with_rookie_def Let_def comp_def)
  have rows: "(is_rookie t \<longleftrightarrow>
           season t = Min (season ` {r \<in> set df. player_id r = player_id t}))
      \<and> ((\<forall>r \<in> set df. player_id r = player_id t \<longrightarrow> season r = season t) \<longrightarrow> is_rookie t)
      \<and> (\<exists>u \<in> set (df_with_rookie df). player_id u = player_id t \<and> is_rookie u)
      \<and> (\<forall>u \<in> set (df_with_rookie df).
            player_id u = player_id t \<and> is_rookie u \<and> season u \<noteq> season t
              \<longrightarrow> \<not> is_rookie t)"
    if t: "t \<in> set (df_with_rookie df)" for t
  proof (intro conjI)
  show "is_rookie t \<longleftrightarrow> season t = Min (season ` {r \<in> set df. player_id r = player_id t})"
    by (rule rookie_iff_min [OF t])
  from df_with_rookie_row [OF t] obtain r where r: "r \<in> set df"
    "player_id t = player_id r" "season t = season r"
    by blast
  show "(\<forall>r \<in> set df. player_id r = player_id t \<longrightarrow> season r = season t) \<longrightarrow> is_rookie t"
  proof
    assume one: "\<forall>r \<in> set df. player_id r = player_id t \<longrightarrow> season r = season t"
    from min_season_attained [OF r(1)] obtain r' where "r' \<in> set df"
      "player_id r' = player_id r"
      "season r' = Min (season ` {x \<in> set df. player_id x = player_id r})"
      by blast
    with one r(2) have "season t = Min (season ` {x \<in> set df. player_id x = player_id t})"
      by auto
    then show "is_rookie t" using rookie_iff_min [OF t] by simp
  qed
  show "\<exists>u \<in> set (df_with_rookie df). player_id u = player_id t \<and> is_rookie u"
  proof -
    from min_season_attained [OF r(1)] obtain r' where r': "r' \<in> set df"
      "player_id r' = player_id r"
      "season r' = Min (season ` {x \<in> set df. player_id x = player_id r})"
      by blast
    from df_with_rookie_of_row [OF r'(1)] obtain u where u: "u \<in> set (df_with_rookie df)"
      "player_id u = player_id r'" "season u = season r'"
      by blast
    have "is_rookie u"
      using rookie_iff_min [OF u(1)] u r' by simp
    with u r' r(2) show ?thesis by auto
  qed
  show "\<forall>u \<in> set (df_with_rookie df).
      player_id u = player_id t \<and> is_rookie u \<and> season u \<noteq> season t \<longrightarrow> \<not> is_rookie t"
  proof (intro ballI impI)
    fix u assume u: "u \<in> set (df_with_rookie df)"
      and h: "player_id u = player_id t \<and> is_rookie u \<and> season u \<noteq> season t"
    show "\<not> is_rookie t"
      using rookie_iff_min [OF u] rookie_iff_min [OF t] h by auto
  qed
  qed
  from ids seasons rows show ?thesis by blast
qed

theorem rookie_flag_is_first_season_witness:
  "map season (df_with_rookie qb_two_seasons) = [2022, 2023]
   \<and> map is_rookie (df_with_rookie qb_two_seasons) = [True, False]"
proof -
  have s: "map season (df_with_rookie qb_two_seasons) = [2022, 2023]"
    by code_simp
  have p: "map player_id (df_with_rookie qb_two_seasons) = [''p1'', ''p1'']"
    by code_simp
  have m: "Min (season ` {r \<in> set qb_two_seasons. player_id r = ''p1''}) = 2022"
  proof -
    have "season ` {r \<in> set qb_two_seasons. player_id r = ''p1''}
        = set (map season (filter (\<lambda>r. player_id r = ''p1'') qb_two_seasons))"
      by auto
    also have "\<dots> = {2022, 2023}"
      by (simp add: qb_two_seasons_def game_def)
    finally show ?thesis by simp
  qed
  from s obtain t1 t2 where t: "df_with_rookie qb_two_seasons = [t1, t2]"
    by (cases "df_with_rookie qb_two_seasons") auto
  have "is_rookie t1 \<and> \<not> is_rookie t2"
    using rookie_flag_is_first_season [of qb_two_seasons] s p m unfolding t by simp
  with s t show ?thesis by simp
qed

section \<open>Replacement baseline\<close>

lemma replacement_rank_values:
  "replacement_rank ''QB'' = 12 \<and> replacement_rank ''RB'' = 24
   \<and> replacement_rank ''WR'' = 24 \<and> replacement_rank ''TE'' = 12"
  by (simp add: replacement_rank_def replacement_ranks_def)

lemma ranked_totals_mset:
  "mset (ranked_totals s pos df)
     = mset (filter (\<lambda>t. season t = s \<and> position t = pos) (season_sums df))"
  by (simp add: ranked_totals_def conj_commute)

lemma ranked_totals_descending:
  assumes "i \<le> j" and "j < length (ranked_totals s pos df)"
  shows "season_points (ranked_totals s pos df ! j) \<le> season_points (ranked_totals s pos df ! i)"
proof -
  have "sorted (map (\<lambda>t. - season_points t) (ranked_totals s pos df))"
    unfolding ranked_totals_def by (rule sorted_sort_key)
  from sorted_nth_mono [OF this, of i j] assms show ?thesis by simp
qed

lemma last_ranked_is_least:
  assumes "ranked_totals s pos df \<noteq> []"
  shows "season_points (last (ranked_totals s pos df))
    = Min (season_points ` set (ranked_totals s pos df))"
proof -
  let ?r = "ranked_totals s pos df"
  have fin: "finite (season_points ` set ?r)" by simp
  have mem: "season_points (last ?r) \<in> season_points ` set ?r"
    using assms by simp
  have le: "season_points (last ?r) \<le> y" if "y \<in> season_points ` set ?r" for y
  proof -
    from that obtain i where i: "i < length ?r" "y = season_points (?r ! i)"
      by (auto simp: in_set_conv_nth)
    have "season_points (?r ! (length ?r - 1)) \<le> season_points (?r ! i)"
      using i(1) by (intro ranked_totals_descending) auto
    then show ?thesis using i(2) assms by (simp add: last_conv_nth)
  qed
  show ?thesis
    using fin mem le by (intro Min_eqI [symmetric]) auto
qed

text \<open>
  Claim C3. For a season and a position, the ranked list holds exactly the season totals of
  that season and position, by descending points. An entry is produced whenever there is at
  least one such total. Its baseline is the total at the fixed rank (index rank - 1; the rank
  is 12 for QB and TE, 24 for RB and WR) when the list has at least that many players, and
  otherwise the total of the last player of the list, which is the least total. The baseline
  is a number in either case.
\<close>

theorem replacement_baseline_at_rank:
  "(positional_value_for s pos df = None \<longleftrightarrow>
      filter (\<lambda>t. season t = s \<and> position t = pos) (season_sums df) = [])
   \<and> mset (ranked_totals s pos df)
       = mset (filter (\<lambda>t. season t = s \<and> position t = pos) (season_sums df))
   \<and> (\<forall>i j. i \<le> j \<and> j < length (ranked_totals s pos df) \<longrightarrow>
         season_points (ranked_totals s pos df ! j) \<le> season_points (ranked_totals s pos df ! i))
   \<and> (\<forall>ins. positional_value_for s pos df = Some ins \<longrightarrow>
        (replacement_rank pos \<le> length (ranked_totals s pos df) \<longrightarrow>
           replacement_value ins
             = season_points (ranked_totals s pos df ! (replacement_rank pos - 1)))
      \<and> (length (ranked_totals s pos df) < replacement_rank pos \<longrightarrow>
           replacement_value ins
             = season_points (ranked_totals s pos df ! (length (ranked_totals s pos df) - 1))
         \<and> replacement_value ins = Min (season_points ` set (ranked_totals s pos df))))
   \<and> replacement_rank ''QB'' = 12 \<and> replacement_rank ''TE'' = 12
   \<and> replacement_rank ''RB'' = 24 \<and> replacement_rank ''WR'' = 24"
proof -
  let ?r = "ranked_totals s pos df"
  have none: "positional_value_for s pos df = None \<longleftrightarrow>
      filter (\<lambda>t. season t = s \<and> position t = pos) (season_sums df) = []"
  proof -
    have "positional_value_for s pos df = None \<longleftrightarrow> ?r = []"
      by (simp add: positional_value_for_def Let_def)
    also have "\<dots> \<longleftrightarrow> length ?r = 0" by simp
    also have "length ?r
        = length (filter (\<lambda>t. season t = s \<and> position t = pos) (season_sums df))"
      by (simp add: ranked_totals_def conj_commute)
    finally show ?thesis by simp
  qed
  have desc: "\<forall>i j. i \<le> j \<and> j < length ?r \<longrightarrow>
      season_points (?r ! j) \<le> season_points (?r ! i)"
    using ranked_totals_descending by blast
  have val: "(replacement_rank pos \<le> length ?r \<longrightarrow>
           replacement_value ins = season_points (?r ! (replacement_rank pos - 1)))
      \<and> (length ?r < replacement_rank pos \<longrightarrow>
           replacement_value ins = season_points (?r ! (length ?r - 1))
         \<and> replacement_value ins = Min (season_points ` set ?r))"
    if some: "positional_value_for s pos df = Some ins" for ins
  proof -
    from some have ne: "?r \<noteq> []"
      by (auto simp: positional_value_for_def Let_def split: if_splits)
    from some ne have rv: "replacement_value ins =
        (if replacement_rank pos \<le> length ?r
         then season_points (?r ! (replacement_rank pos - 1))
         else season_points (last ?r))"
      by (auto simp: positional_value_for_def Let_def split: if_splits)
    show ?thesis
      using rv ne last_ranked_is_least [OF ne] by (auto simp: last_conv_nth)
  qed
  from none ranked_totals_mset [of s pos df] desc val replacement_rank_values
  show ?thesis by blast
qed

lemma thirteen_ranked:
  "map season_points (ranked_totals 2023 ''QB'' thirteen_qbs)
     = [13, 12, 11, 10, 9, 8, 7, 6, 5, 4, 3, 2, 1]"
  by code_simp

lemma three_ranked:
  "map season_points (ranked_totals 2023 ''RB'' three_rbs) = [30, 20, 10]"
  by code_simp

theorem replacement_baseline_at_rank_witness:
  "positional_value_for 2023 ''QB'' thirteen_qbs \<noteq> None
   \<and> replacement_value (the (positional_value_for 2023 ''QB'' thirteen_qbs)) = 2
   \<and> positional_value_for 2023 ''RB'' three_rbs \<noteq> None
   \<and> replacement_value (the (positional_value_for 2023 ''RB'' three_rbs)) = 10"
proof -
  have l1: "length (ranked_totals 2023 ''QB'' thirteen_qbs) = 13"
    using arg_cong [OF thirteen_ranked, of length] by simp
  have v1: "season_points (ranked_totals 2023 ''QB'' thirteen_qbs ! 11) = 2"
    using arg_cong [OF thirteen_ranked, of "\<lambda>xs. xs ! 11"] l1 by simp
  have l2: "length (ranked_totals 2023 ''RB'' three_rbs) = 3"
    using arg_cong [OF three_ranked, of length] by simp
  have v2: "season_points (ranked_totals 2023 ''RB'' three_rbs ! 2) = 10"
    using arg_cong [OF three_ranked, of "\<lambda>xs. xs ! 2"] l2 by simp
  have n1: "positional_value_for 2023 ''QB'' thirteen_qbs \<noteq> None"
    using l1 by (auto simp: positional_value_for_def Let_def)
  have n2: "positional_value_for 2023 ''RB'' three_rbs \<noteq> None"
    using l2 by (auto simp: positional_value_for_def Let_def)
  from n1 obtain i1 where i1: "positional_value_for 2023 ''QB'' thirteen_qbs = Some i1"
    by blast
  from n2 obtain i2 where i2: "positional_value_for 2023 ''RB'' three_rbs = Some i2"
    by blast
  have r1: "replacement_value i1 = 2"
    using replacement_baseline_at_rank [of 2023 "''QB''" thirteen_qbs] i1 l1 v1 by simp
  have r2: "replacement_value i2 = 10"
    using replacement_baseline_at_rank [of 2023 "''RB''" three_rbs] i2 l2 v2 by simp
  from i1 i2 r1 r2 show ?thesis by simp
qed

section \<open>Year-over-year classification\<close>


















lemma season_sums_of_row:
  assumes "r \<in> set xs"
  shows "\<exists>t \<in> set (season_sums xs). key4 t = key4 r"
proof -
  have "key4 r \<in> set (group_keys key4 xs)" using assms by (simp add: set_group_keys)
  then show ?thesis
    unfolding season_sums_def by (force simp: key4_def)
qed
















end
